theory Spec2Isabelle
  imports Complex_Main "HOL-Library.AList"
begin

section \<open>The host document\<close>

text \<open>
  \<^verbatim>\<open>Graph.Label.js\<close> works on the browser's document: it looks elements up by id, creates
  them, attaches and detaches them and writes their style. The document is modelled as a
  store of elements addressed by references. An element keeps its attributes (\<^verbatim>\<open>id\<close> and
  \<^verbatim>\<open>class\<close> among them, so that \<^verbatim>\<open>tag.id = v\<close> and \<^verbatim>\<open>tag.setAttribute('id', v)\<close> are the
  same write), its inline style as a dictionary, its parent and its event listeners.
  The tree is kept through the parent pointers alone; where several connected elements
  carry one id the browser answers with the first in tree order and the model with the
  one allocated first.
\<close>

type_synonym ref = nat

datatype handler = wte

record element =
  tagName :: string
  namespaceURI :: string
  attributes :: "string \<rightharpoonup> string"
  style :: "string \<rightharpoonup> string"
  parentNode :: "ref option"
  listeners :: "(string \<times> handler) list"

record browser_document =
  heap :: "ref \<Rightarrow> element"
  nextRef :: ref
  documentElement :: ref

datatype error = TypeError | HierarchyRequestError | NotFoundError

definition modify :: "ref \<Rightarrow> (element \<Rightarrow> element) \<Rightarrow> browser_document \<Rightarrow> browser_document" where
  "modify a f d = d\<lparr>heap := (heap d)(a := f (heap d a))\<rparr>"

definition createElementNS :: "string \<Rightarrow> string \<Rightarrow> browser_document \<Rightarrow> ref \<times> browser_document" where
  "createElementNS ns t d =
     (nextRef d,
      d\<lparr>heap := (heap d)(nextRef d :=
            \<lparr>tagName = t, namespaceURI = ns, attributes = Map.empty, style = Map.empty,
             parentNode = None, listeners = []\<rparr>),
        nextRef := Suc (nextRef d)\<rparr>)"

definition createElement :: "string \<Rightarrow> browser_document \<Rightarrow> ref \<times> browser_document" where
  "createElement t d = createElementNS ''http://www.w3.org/1999/xhtml'' t d"

definition setAttribute :: "ref \<Rightarrow> string \<Rightarrow> string \<Rightarrow> browser_document \<Rightarrow> browser_document" where
  "setAttribute a k v d = modify a (\<lambda>e. e\<lparr>attributes := (attributes e)(k \<mapsto> v)\<rparr>) d"

definition setStyle :: "ref \<Rightarrow> string \<Rightarrow> string \<Rightarrow> browser_document \<Rightarrow> browser_document" where
  "setStyle a k v d = modify a (\<lambda>e. e\<lparr>style := (style e)(k \<mapsto> v)\<rparr>) d"

definition addEventListener :: "ref \<Rightarrow> string \<Rightarrow> handler \<Rightarrow> browser_document \<Rightarrow> browser_document" where
  "addEventListener a ev h d =
     modify a (\<lambda>e. if (ev, h) \<in> set (listeners e) then e
                    else e\<lparr>listeners := listeners e @ [(ev, h)]\<rparr>) d"

text \<open>
  \<open>ancestorOrSelf k h anc a\<close> walks up from \<open>a\<close> through at most \<open>k\<close> parents looking for
  \<open>anc\<close>; with \<open>k\<close> the number of allocated elements it decides \<^verbatim>\<open>anc.contains(a)\<close>.
\<close>

fun ancestorOrSelf :: "nat \<Rightarrow> (ref \<Rightarrow> element) \<Rightarrow> ref \<Rightarrow> ref \<Rightarrow> bool" where
  "ancestorOrSelf 0 h anc a = (a = anc)"
| "ancestorOrSelf (Suc k) h anc a =
     (a = anc \<or> (case parentNode (h a) of None \<Rightarrow> False | Some p \<Rightarrow> ancestorOrSelf k h anc p))"

definition node_contains :: "browser_document \<Rightarrow> ref \<Rightarrow> ref \<Rightarrow> bool" where
  "node_contains d anc a = ancestorOrSelf (nextRef d) (heap d) anc a"

definition isConnected :: "browser_document \<Rightarrow> ref \<Rightarrow> bool" where
  "isConnected d a = node_contains d (documentElement d) a"

definition getElementById :: "browser_document \<Rightarrow> string \<Rightarrow> ref option" where
  "getElementById d i =
     (if i = [] then None
      else find (\<lambda>a. attributes (heap d a) ''id'' = Some i \<and> isConnected d a) [0..<nextRef d])"

definition appendChild :: "ref \<Rightarrow> ref \<Rightarrow> browser_document \<Rightarrow> error + browser_document" where
  "appendChild parent child d =
     (if node_contains d child parent then Inl HierarchyRequestError
      else Inr (modify child (\<lambda>e. e\<lparr>parentNode := Some parent\<rparr>) d))"

definition removeChild :: "ref \<Rightarrow> ref \<Rightarrow> browser_document \<Rightarrow> error + browser_document" where
  "removeChild parent child d =
     (if parentNode (heap d child) = Some parent
      then Inr (modify child (\<lambda>e. e\<lparr>parentNode := None\<rparr>) d)
      else Inl NotFoundError)"

section \<open>Collaborators: nodes, canvas, graph, configuration\<close>

text \<open>
  A node answers \<^verbatim>\<open>getPos(phase).getc(true)\<close> with a point and \<^verbatim>\<open>getData(key, phase)\<close> with
  a number; \<^verbatim>\<open>getData(key)\<close> without a phase reads the current value. Numbers are real
  numbers here: the comparisons of the source are exact on them, and not-a-number is left
  out.
\<close>

datatype phase = Current | Start | End

record point =
  pos_x :: real
  pos_y :: real

record node =
  node_id :: string
  getPos :: "phase \<Rightarrow> point"
  getData :: "string \<Rightarrow> phase \<Rightarrow> real"

record canvas_size =
  width :: real
  height :: real

record canvas =
  getSize :: canvas_size

text \<open>
  The hooks are the caller's functions. They receive the element and the node and may
  change the document; every call is also recorded, in order, in the \<open>calls\<close> of the
  state.
\<close>

type_synonym hook = "ref \<Rightarrow> node \<Rightarrow> browser_document \<Rightarrow> browser_document"

datatype event =
    OnCreateLabel ref string
  | OnBeforeAnimateLabel ref string
  | PlaceLabel ref string

record viz =
  config_labelContainer :: string
  config_Label_useCSS3 :: bool
  config_onCreateLabel :: hook
  controller_onCreateLabel :: hook
  viz_canvas :: canvas
  graph_hasNode :: "string \<Rightarrow> bool"

record animation_options =
  duration :: real
  onBeforeAnimateLabel :: hook

section \<open>Graph.Label.DOM\<close>

text \<open>
  The fields of a label object together with the document it works on. \<open>labels\<close> is the
  hash \<^verbatim>\<open>this.labels\<close>: an association list in insertion order whose values are an element
  or \<^verbatim>\<open>null\<close> (\<open>None\<close>). \<open>labelContainer\<close> starts as \<^verbatim>\<open>false\<close> and may hold \<^verbatim>\<open>null\<close>; both
  are falsy and both are \<open>None\<close>. Node ids are taken not to be names that a plain object
  inherits from its prototype.
\<close>

record label_state =
  labelsHidden :: bool
  labelContainer :: "ref option"
  labels :: "(string \<times> ref option) list"
  document :: browser_document
  calls :: "event list"

definition getLabelContainer :: "viz \<Rightarrow> label_state \<Rightarrow> ref option \<times> label_state" where
  "getLabelContainer v s =
     (case labelContainer s of
        Some c \<Rightarrow> (Some c, s)
      | None \<Rightarrow>
          (let r = getElementById (document s) (config_labelContainer v)
           in (r, s\<lparr>labelContainer := r\<rparr>)))"

definition getLabel :: "string \<Rightarrow> label_state \<Rightarrow> ref option \<times> label_state" where
  "getLabel i s =
     (case map_of (labels s) i of
        Some (Some a) \<Rightarrow> (Some a, s)
      | _ \<Rightarrow>
          (let r = getElementById (document s) i
           in (r, s\<lparr>labels := AList.update i r (labels s)\<rparr>)))"

definition hideLabels :: "viz \<Rightarrow> bool \<Rightarrow> label_state \<Rightarrow> (error + unit) \<times> label_state" where
  "hideLabels v hide s =
     (let (container, s1) = getLabelContainer v s
      in case container of
           None \<Rightarrow> (Inl TypeError, s1)
         | Some c \<Rightarrow>
             (Inr (),
              s1\<lparr>document := setStyle c ''display'' (if hide then ''none'' else []) (document s1),
                 labelsHidden := hide\<rparr>))"

definition disposeLabel :: "string \<Rightarrow> label_state \<Rightarrow> (error + unit) \<times> label_state" where
  "disposeLabel i s =
     (let (elem, s1) = getLabel i s
      in case elem of
           None \<Rightarrow> (Inr (), s1)
         | Some a \<Rightarrow>
             (case parentNode (heap (document s1) a) of
                None \<Rightarrow> (Inr (), s1)
              | Some p \<Rightarrow>
                  (case removeChild p a (document s1) of
                     Inl e \<Rightarrow> (Inl e, s1)
                   | Inr d \<Rightarrow> (Inr (), s1\<lparr>document := d\<rparr>))))"

text \<open>
  \<^verbatim>\<open>for (var id in this.labels)\<close> visits the keys the hash has when the loop starts; the
  body only rewrites or deletes the key it is visiting. The order of the list stands for
  the order in which the host enumerates the keys.
\<close>

fun clearLabels_loop :: "viz \<Rightarrow> bool \<Rightarrow> string list \<Rightarrow> label_state \<Rightarrow> (error + unit) \<times> label_state" where
  "clearLabels_loop v force [] s = (Inr (), s)"
| "clearLabels_loop v force (i # ids) s =
     (if force \<or> \<not> graph_hasNode v i
      then (case disposeLabel i s of
              (Inl e, s1) \<Rightarrow> (Inl e, s1)
            | (Inr u, s1) \<Rightarrow> clearLabels_loop v force ids (s1\<lparr>labels := AList.delete i (labels s1)\<rparr>))
      else clearLabels_loop v force ids s)"

definition clearLabels :: "viz \<Rightarrow> bool \<Rightarrow> label_state \<Rightarrow> (error + unit) \<times> label_state" where
  "clearLabels v force s = clearLabels_loop v force (map fst (labels s)) s"


text \<open>
  \<^verbatim>\<open>hideLabel(node, show)\<close> after \<^verbatim>\<open>$.splat\<close>: the nodes are a list.
\<close>

definition hideLabel :: "node list \<Rightarrow> bool \<Rightarrow> label_state \<Rightarrow> label_state" where
  "hideLabel ns show s =
     (let st = (if show then [] else ''none'')
      in fold (\<lambda>n s0. let (lab, s1) = getLabel (node_id n) s0
                       in case lab of
                            None \<Rightarrow> s1
                          | Some a \<Rightarrow> s1\<lparr>document := setStyle a ''display'' st (document s1)\<rparr>)
              ns s)"

section \<open>Graph.Label.HTML and Graph.Label.SVG\<close>

definition HTML_getOrCreateLabel :: "viz \<Rightarrow> node \<Rightarrow> label_state \<Rightarrow> (error + ref) \<times> label_state" where
  "HTML_getOrCreateLabel v n s =
     (let i = node_id n; (tag, s1) = getLabel i s
      in case tag of
           Some a \<Rightarrow> (Inr a, s1)
         | None \<Rightarrow>
             (case getElementById (document s1) i of
                Some a \<Rightarrow> (Inr a, s1)
              | None \<Rightarrow>
                  (let (a, d1) = createElement ''div'' (document s1);
                       (container, s2) = getLabelContainer v (s1\<lparr>document := d1\<rparr>);
                       d2 = setAttribute a ''id'' i (document s2);
                       d3 = setAttribute a ''class'' ''node'' d2;
                       d4 = setStyle a ''position'' ''absolute'' d3;
                       s3 = s2\<lparr>document := config_onCreateLabel v a n d4,
                               calls := calls s2 @ [OnCreateLabel a i]\<rparr>
                   in case container of
                        None \<Rightarrow> (Inl TypeError, s3)
                      | Some c \<Rightarrow>
                          (case appendChild c a (document s3) of
                             Inl e \<Rightarrow> (Inl e, s3)
                           | Inr d5 \<Rightarrow>
                               (Inr a,
                                s3\<lparr>document := d5,
                                   labels := AList.update (node_id n) (Some a) (labels s3)\<rparr>)))))"





definition css3Props :: "string list" where
  "css3Props = [''width'', ''height'', ''top'', ''left'', ''color'', ''opacity'']"

definition prefixes :: "string list" where
  "prefixes = [''webkit'', ''moz'', ''o'', []]"

definition prefixesStyles :: "string list" where
  "prefixesStyles = [''-webkit-'', ''-moz-'', ''-o-'', []]"

text \<open>\<^verbatim>\<open>Array.prototype.join()\<close> with its default separator.\<close>

fun join :: "string list \<Rightarrow> string" where
  "join [] = []"
| "join [x] = x"
| "join (x # y # ys) = x @ '','' @ join (y # ys)"

text \<open>
  \<^verbatim>\<open>v >> 0\<close> is the conversion to a signed 32-bit integer: the fraction is dropped towards
  zero and the result wraps modulo \<open>2^32\<close>.
\<close>

definition toInt32 :: "real \<Rightarrow> int" where
  "toInt32 r = (let k = (if r < 0 then \<lceil>r\<rceil> else \<lfloor>r\<rfloor>) in (k + 2 ^ 31) mod 2 ^ 32 - 2 ^ 31)"

text \<open>
  \<open>str\<close> is the host's conversion of a number to a string, which \<^verbatim>\<open>String(v)\<close> and
  \<^verbatim>\<open>v + 'ms'\<close> apply. \<open>modes\<close> is read into \<^verbatim>\<open>nodeProps\<close> and not used again.
\<close>

definition HTML_prepareForAnimation ::
  "(real \<Rightarrow> string) \<Rightarrow> viz \<Rightarrow> node \<Rightarrow> (string \<rightharpoonup> string list) \<Rightarrow> animation_options \<Rightarrow>
   label_state \<Rightarrow> (error + unit) \<times> label_state" where
  "HTML_prepareForAnimation str v n modes opt s =
     (if \<not> config_Label_useCSS3 v then (Inr (), s)
      else
        (let size = getSize (viz_canvas v);
             nodeProps = (case modes ''node-property'' of Some l \<Rightarrow> l | None \<Rightarrow> []);
             pos = getPos n End;
             posStart = getPos n Start;
             startWidth = getData n ''width'' Start;
             startHeight = getData n ''height'' Start;
             endWidth = getData n ''width'' End;
             endHeight = getData n ''height'' End;
             alpha = getData n ''alpha'' Current;
             alphaEnd = getData n ''alpha'' End
         in case HTML_getOrCreateLabel v n s of
              (Inl e, s1) \<Rightarrow> (Inl e, s1)
            | (Inr label, s1) \<Rightarrow>
                (let d =
                   (if alpha \<noteq> alphaEnd then
                      (let d1 = setStyle label ''visibility'' ''visible'' (document s1);
                           d2 = setStyle label ''opacity'' (str alpha) d1;
                           d3 = fold (\<lambda>p d0.
                                   setStyle label (p @ ''transition-timing-function'') ''ease-in-out''
                                    (setStyle label (p @ ''transition-delay'') ''200ms''
                                     (setStyle label (p @ ''transition-duration'') (str (duration opt) @ ''ms'')
                                      (setStyle label (p @ ''transition-property'') ''opacity'' d0))))
                                 prefixesStyles d2;
                           d4 = setStyle label ''opacity'' (str alphaEnd) d3
                       in if alphaEnd = 0 \<and> alpha = 1
                          then fold (\<lambda>p d0. addEventListener label (p @ ''TransitionEnd'') wte d0) prefixes d4
                          else d4)
                    else if pos_x pos \<noteq> pos_x posStart \<or> pos_y pos \<noteq> pos_y posStart
                            \<or> startWidth \<noteq> endWidth \<or> startHeight \<noteq> endHeight then
                      (let d1 = fold (\<lambda>p d0.
                                   setStyle label (p @ ''transition-timing-function'') ''ease-in-out''
                                    (setStyle label (p @ ''transition-delay'') ''200ms''
                                     (setStyle label (p @ ''transition-duration'') (str (duration opt) @ ''ms'')
                                      (setStyle label (p @ ''transition-property'') (join css3Props) d0))))
                                 prefixesStyles (document s1);
                           d2 = setStyle label ''top''
                                  (str (of_int (toInt32 (pos_y pos + height size / 2))) @ ''px'') d1;
                           d3 = setStyle label ''left''
                                  (str (of_int (toInt32 (pos_x pos + width size / 2))) @ ''px'') d2;
                           d4 = setStyle label ''width'' (str (of_int (toInt32 endWidth)) @ ''px'') d3
                       in setStyle label ''height'' (str (of_int (toInt32 endHeight)) @ ''px'') d4)
                    else document s1)
                 in (Inr (),
                     s1\<lparr>document := onBeforeAnimateLabel opt label n d,
                        calls := calls s1 @ [OnBeforeAnimateLabel label (node_id n)]\<rparr>))))"

section \<open>Repeated calls, the sweep in the specification's words, and counting hook calls\<close>



definition onBeforeAnimateLabel_calls :: "event list \<Rightarrow> event list" where
  "onBeforeAnimateLabel_calls tr =
     filter (\<lambda>e. case e of OnBeforeAnimateLabel a j \<Rightarrow> True | _ \<Rightarrow> False) tr"

text \<open>
  The specification of \<^verbatim>\<open>clearLabels\<close>, in its words: for each of the given ids, call
  \<^verbatim>\<open>disposeLabel(id)\<close> and remove the cache entry.
\<close>

fun dispose_and_remove :: "string list \<Rightarrow> label_state \<Rightarrow> (error + unit) \<times> label_state" where
  "dispose_and_remove [] s = (Inr (), s)"
| "dispose_and_remove (i # ids) s =
     (case disposeLabel i s of
        (Inl e, s1) \<Rightarrow> (Inl e, s1)
      | (Inr u, s1) \<Rightarrow> dispose_and_remove ids (s1\<lparr>labels := AList.delete i (labels s1)\<rparr>))"

section \<open>Example inputs\<close>

text \<open>
  A page with the root element and, under it, the label container \<^verbatim>\<open>infovis-label\<close>; a
  node \<^verbatim>\<open>n1\<close> that moves from \<open>(0, 0)\<close> to \<open>(10, 20)\<close> with unchanged opacity and size; a
  canvas of 100 by 50; hooks that leave the document as it is.
\<close>

definition page0 :: browser_document where
  "page0 =
     \<lparr>heap = (\<lambda>a. \<lparr>tagName = ''html'', namespaceURI = ''http://www.w3.org/1999/xhtml'',
                     attributes = Map.empty, style = Map.empty, parentNode = None, listeners = []\<rparr>)
              (Suc 0 := \<lparr>tagName = ''div'', namespaceURI = ''http://www.w3.org/1999/xhtml'',
                     attributes = [''id'' \<mapsto> ''infovis-label''], style = Map.empty,
                     parentNode = Some 0, listeners = []\<rparr>),
      nextRef = 2, documentElement = 0\<rparr>"

definition node1 :: node where
  "node1 = \<lparr>node_id = ''n1'',
            getPos = (\<lambda>ph. if ph = End then \<lparr>pos_x = 10, pos_y = 20\<rparr> else \<lparr>pos_x = 0, pos_y = 0\<rparr>),
            getData = (\<lambda>k ph. if k = ''alpha'' then 1 else 30)\<rparr>"

definition viz0 :: viz where
  "viz0 = \<lparr>config_labelContainer = ''infovis-label'', config_Label_useCSS3 = True,
           config_onCreateLabel = (\<lambda>a n d. d), controller_onCreateLabel = (\<lambda>a n d. d),
           viz_canvas = \<lparr>getSize = \<lparr>width = 100, height = 50\<rparr>\<rparr>,
           graph_hasNode = (\<lambda>i. i = ''n1'')\<rparr>"

definition state0 :: label_state where
  "state0 = \<lparr>labelsHidden = False, labelContainer = None, labels = [], document = page0, calls = []\<rparr>"



text \<open>The same page with an element of id \<^verbatim>\<open>n1\<close> authored under the container.\<close>

definition label_div :: "string \<Rightarrow> element" where
  "label_div i =
     \<lparr>tagName = ''div'', namespaceURI = ''http://www.w3.org/1999/xhtml'',
      attributes = [''id'' \<mapsto> i, ''class'' \<mapsto> ''node''], style = [''position'' \<mapsto> ''absolute''],
      parentNode = Some (Suc 0), listeners = []\<rparr>"


text \<open>
  A label object that caches the elements of \<^verbatim>\<open>n1\<close> and \<^verbatim>\<open>n2\<close> and a \<^verbatim>\<open>null\<close> for \<^verbatim>\<open>n3\<close>,
  while the graph of \<open>viz0\<close> has the node \<^verbatim>\<open>n1\<close> only.
\<close>

definition state_cached :: label_state where
  "state_cached =
     \<lparr>labelsHidden = False, labelContainer = Some (Suc 0),
      labels = [(''n1'', Some 2), (''n2'', Some 3), (''n3'', None)],
      document = page0\<lparr>heap := (heap page0)(2 := label_div ''n1'', 3 := label_div ''n2''), nextRef := 4\<rparr>,
      calls = []\<rparr>"

text \<open>
  Decimal digits of a whole number, standing for the host's number-to-string conversion
  in the examples.
\<close>

fun digits :: "nat \<Rightarrow> string" where
  "digits n =
     (if n < 10 then [''0123456789'' ! n]
      else digits (n div 10) @ [''0123456789'' ! (n mod 10)])"

definition decimal :: "real \<Rightarrow> string" where
  "decimal r = (if r < 0 then CHR ''-'' # digits (nat (- \<lceil>r\<rceil>)) else digits (nat \<lfloor>r\<rfloor>))"

definition opt0 :: animation_options where
  "opt0 = \<lparr>duration = 1500, onBeforeAnimateLabel = (\<lambda>a n d. d)\<rparr>"

text \<open>The configuration with CSS3 transitions switched off, and one whose container id names no element.\<close>

definition viz_plain :: viz where
  "viz_plain = viz0\<lparr>config_Label_useCSS3 := False\<rparr>"

definition viz_lost :: viz where
  "viz_lost = viz0\<lparr>config_labelContainer := ''missing''\<rparr>"

declare digits.simps [simp del]

section \<open>The example page\<close>

lemma page0_lookup:
  "getElementById page0 ''infovis-label'' = Some (Suc 0)"
  "getElementById page0 ''n1'' = None"
  "getElementById page0 ''unknown-id'' = None"
  "getElementById page0 ''missing'' = None"
  by (simp_all add: getElementById_def page0_def isConnected_def node_contains_def
      numeral_2_eq_2 upt_rec)


section \<open>Looking labels up\<close>

lemma getLabel_miss:
  assumes "\<forall>a. map_of (labels s) i \<noteq> Some (Some a)"
  shows "getLabel i s =
     (getElementById (document s) i,
      s\<lparr>labels := AList.update i (getElementById (document s) i) (labels s)\<rparr>)"
  using assms by (auto simp: getLabel_def Let_def split: option.splits)

lemma getLabel_hit:
  "map_of (labels s) i = Some (Some a) \<Longrightarrow> getLabel i s = (Some a, s)"
  by (simp add: getLabel_def)

lemma getLabel_cases:
  obtains (hit) a where "map_of (labels s) i = Some (Some a)" "getLabel i s = (Some a, s)"
  | (miss) "\<forall>a. map_of (labels s) i \<noteq> Some (Some a)"
      "getLabel i s =
         (getElementById (document s) i,
          s\<lparr>labels := AList.update i (getElementById (document s) i) (labels s)\<rparr>)"
proof (cases "\<exists>a. map_of (labels s) i = Some (Some a)")
  case True
  then obtain a where "map_of (labels s) i = Some (Some a)" by blast
  then show ?thesis using hit getLabel_hit by blast
next
  case False
  then have "\<forall>a. map_of (labels s) i \<noteq> Some (Some a)" by blast
  then show ?thesis using miss getLabel_miss by blast
qed

lemma getLabelContainer_keeps:
  "getLabelContainer v s = (c, s') \<Longrightarrow>
     calls s' = calls s \<and> labels s' = labels s \<and> document s' = document s"
  by (auto simp: getLabelContainer_def Let_def split: option.splits)



section \<open>Disposal\<close>




lemma disposeLabel_ok: "fst (disposeLabel i s) = Inr ()"
  by (auto simp: disposeLabel_def removeChild_def Let_def
      split: prod.splits option.splits sum.splits)

lemma disposeLabel_labels:
  "AList.delete i (labels (snd (disposeLabel i s))) = AList.delete i (labels s)"
  by (auto simp: disposeLabel_def getLabel_def removeChild_def Let_def delete_update_same
      split: prod.splits option.splits sum.splits if_splits)

lemma disposeLabel_parent:
  "parentNode (heap (document (snd (disposeLabel i s))) b) = None
   \<or> parentNode (heap (document (snd (disposeLabel i s))) b) = parentNode (heap (document s) b)"
  by (auto simp: disposeLabel_def getLabel_def removeChild_def modify_def Let_def
      split: prod.splits option.splits sum.splits if_splits)

lemma disposeLabel_detaches:
  "map_of (labels s) i = Some (Some a) \<Longrightarrow>
     parentNode (heap (document (snd (disposeLabel i s))) a) = None"
  by (auto simp: disposeLabel_def getLabel_hit removeChild_def modify_def
      split: option.splits)

section \<open>Sweeping the cache\<close>

lemma clearLabels_loop_sweep:
  "clearLabels_loop v force ids s =
     dispose_and_remove (filter (\<lambda>i. force \<or> \<not> graph_hasNode v i) ids) s"
  by (induction ids arbitrary: s) (auto split: prod.splits sum.splits)

lemma dispose_and_remove_ok: "fst (dispose_and_remove ids s) = Inr ()"
proof (induction ids arbitrary: s)
  case Nil
  show ?case by simp
next
  case (Cons i ids)
  obtain r s1 where d: "disposeLabel i s = (r, s1)" by (cases "disposeLabel i s")
  with disposeLabel_ok[of i s] have "r = Inr ()" by simp
  with d Cons show ?case by simp
qed

lemma dispose_and_remove_labels:
  "labels (snd (dispose_and_remove ids s)) = filter (\<lambda>p. fst p \<notin> set ids) (labels s)"
proof (induction ids arbitrary: s)
  case Nil
  show ?case by simp
next
  case (Cons i ids)
  obtain r s1 where d: "disposeLabel i s = (r, s1)" by (cases "disposeLabel i s")
  with disposeLabel_ok[of i s] have r: "r = Inr ()" by simp
  from d disposeLabel_labels[of i s]
  have "AList.delete i (labels s1) = AList.delete i (labels s)" by simp
  then have "AList.delete i (labels s1) = filter (\<lambda>p. fst p \<noteq> i) (labels s)"
    by (simp add: AList.delete_eq case_prod_unfold eq_commute)
  with d r Cons[of "s1\<lparr>labels := AList.delete i (labels s1)\<rparr>"] show ?case
    by (simp add: conj_commute)
qed

lemma dispose_and_remove_parent:
  "parentNode (heap (document (snd (dispose_and_remove ids s))) b) = None
   \<or> parentNode (heap (document (snd (dispose_and_remove ids s))) b)
       = parentNode (heap (document s) b)"
proof (induction ids arbitrary: s)
  case Nil
  show ?case by simp
next
  case (Cons i ids)
  obtain r s1 where d: "disposeLabel i s = (r, s1)" by (cases "disposeLabel i s")
  with disposeLabel_ok[of i s] have r: "r = Inr ()" by simp
  from d disposeLabel_parent[of i s b] Cons[of "s1\<lparr>labels := AList.delete i (labels s1)\<rparr>"] r
  show ?case by auto
qed

lemma dispose_and_remove_detaches:
  "i \<in> set ids \<Longrightarrow> map_of (labels s) i = Some (Some a) \<Longrightarrow>
     parentNode (heap (document (snd (dispose_and_remove ids s))) a) = None"
proof (induction ids arbitrary: s)
  case Nil
  then show ?case by simp
next
  case (Cons j ids)
  obtain r s1 where d: "disposeLabel j s = (r, s1)" by (cases "disposeLabel j s")
  with disposeLabel_ok[of j s] have r: "r = Inr ()" by simp
  let ?s2 = "s1\<lparr>labels := AList.delete j (labels s1)\<rparr>"
  have step: "dispose_and_remove (j # ids) s = dispose_and_remove ids ?s2"
    using d r by simp
  show ?case
  proof (cases "j = i")
    case True
    with Cons.prems d disposeLabel_detaches[of s i a]
    have "parentNode (heap (document ?s2) a) = None" by simp
    with dispose_and_remove_parent[of ids ?s2 a] show ?thesis unfolding step by auto
  next
    case False
    from d disposeLabel_labels[of j s]
    have "AList.delete j (labels s1) = AList.delete j (labels s)" by simp
    with False Cons.prems have "map_of (labels ?s2) i = Some (Some a)" by simp
    moreover from False Cons.prems have "i \<in> set ids" by simp
    ultimately show ?thesis unfolding step by (rule Cons.IH[rotated])
  qed
qed

text \<open>
  C3. \<^verbatim>\<open>clearLabels(force)\<close> returns, and it is the sweep that calls \<^verbatim>\<open>disposeLabel\<close> and
  removes the entry for exactly the cached ids with \<open>force\<close> or without a node in the
  graph: the cache afterwards is the cache before without those entries, and the cached
  element of every such id ends without a parent. So after \<^verbatim>\<open>clearLabels(true)\<close> the cache
  is empty, and after \<^verbatim>\<open>clearLabels(false)\<close> every id left in it has its node in the graph.
\<close>

theorem clearLabels_consistency:
  "fst (clearLabels v force s) = Inr ()
   \<and> clearLabels v force s =
       dispose_and_remove (filter (\<lambda>i. force \<or> \<not> graph_hasNode v i) (map fst (labels s))) s
   \<and> labels (snd (clearLabels v force s)) =
       filter (\<lambda>p. \<not> (force \<or> \<not> graph_hasNode v (fst p))) (labels s)
   \<and> (\<forall>i a. map_of (labels s) i = Some (Some a) \<and> (force \<or> \<not> graph_hasNode v i) \<longrightarrow>
          parentNode (heap (document (snd (clearLabels v force s))) a) = None)
   \<and> labels (snd (clearLabels v True s)) = []
   \<and> (\<forall>i \<in> set (map fst (labels (snd (clearLabels v False s)))). graph_hasNode v i)"
proof -
  have sw: "\<And>f. clearLabels v f s =
       dispose_and_remove (filter (\<lambda>i. f \<or> \<not> graph_hasNode v i) (map fst (labels s))) s"
    by (simp add: clearLabels_def clearLabels_loop_sweep)
  have lb: "\<And>f. labels (snd (clearLabels v f s)) =
       filter (\<lambda>p. \<not> (f \<or> \<not> graph_hasNode v (fst p))) (labels s)"
    unfolding sw dispose_and_remove_labels
    by (rule filter_cong) auto
  have dt: "parentNode (heap (document (snd (clearLabels v force s))) a) = None"
    if "map_of (labels s) i = Some (Some a)" "force \<or> \<not> graph_hasNode v i" for i a
  proof -
    from that(1) have "i \<in> set (map fst (labels s))"
      by (metis domI dom_map_of_conv_image_fst list.set_map)
    with that(2)
    have "i \<in> set (filter (\<lambda>i. force \<or> \<not> graph_hasNode v i) (map fst (labels s)))"
      by simp
    then show ?thesis unfolding sw using that(1) by (rule dispose_and_remove_detaches)
  qed
  show ?thesis
    using sw[of force] lb[of force] lb[of True] lb[of False] dt
    by (auto simp: dispose_and_remove_ok)
qed

theorem clearLabels_consistency_witness:
  "fst (clearLabels viz0 False state_cached) = Inr ()
   \<and> labels (snd (clearLabels viz0 False state_cached)) = [(''n1'', Some 2)]
   \<and> graph_hasNode viz0 ''n1''
   \<and> map_of (labels state_cached) ''n2'' = Some (Some 3)
   \<and> parentNode (heap (document state_cached) 3) = Some (Suc 0)
   \<and> parentNode (heap (document (snd (clearLabels viz0 False state_cached))) 3) = None
   \<and> labels (snd (clearLabels viz0 True state_cached)) = []"
proof -
  note t = clearLabels_consistency [of viz0 False state_cached]
  have n2: "map_of (labels state_cached) ''n2'' = Some (Some 3) \<and> (False \<or> \<not> graph_hasNode viz0 ''n2'')"
    by (simp add: state_cached_def viz0_def)
  from t have "\<forall>i a. map_of (labels state_cached) i = Some (Some a) \<and> (False \<or> \<not> graph_hasNode viz0 i) \<longrightarrow>
          parentNode (heap (document (snd (clearLabels viz0 False state_cached))) a) = None"
    by blast
  with n2 have d: "parentNode (heap (document (snd (clearLabels viz0 False state_cached))) 3) = None"
    by blast
  from t have l: "labels (snd (clearLabels viz0 False state_cached)) =
       filter (\<lambda>p. \<not> (False \<or> \<not> graph_hasNode viz0 (fst p))) (labels state_cached)"
    and e: "labels (snd (clearLabels viz0 True state_cached)) = []"
    and r: "fst (clearLabels viz0 False state_cached) = Inr ()"
    by blast+
  show ?thesis
    unfolding l
    using d e r by (simp add: state_cached_def viz0_def label_div_def)
qed

section \<open>The bounds check\<close>


section \<open>Hiding the container\<close>

text \<open>
  C9. Where the label container resolves to an element \<open>c\<close> (it is memoized, or the
  document has the configured id), \<^verbatim>\<open>hideLabels(true)\<close> returns with the container's
  \<^verbatim>\<open>display\<close> set to \<^verbatim>\<open>none\<close> and \<^verbatim>\<open>labelsHidden\<close> true; a second \<^verbatim>\<open>hideLabels(true)\<close> returns
  and leaves the state exactly as the first left it; \<^verbatim>\<open>hideLabels(false)\<close> after them
  returns with \<^verbatim>\<open>display\<close> set to the empty string, which shows the container again, and
  \<^verbatim>\<open>labelsHidden\<close> false.
\<close>

theorem hideLabels_idempotent:
  assumes "labelContainer s = Some c
     \<or> (labelContainer s = None \<and> getElementById (document s) (config_labelContainer v) = Some c)"
  shows "fst (hideLabels v True s) = Inr ()
     \<and> style (heap (document (snd (hideLabels v True s))) c) ''display'' = Some ''none''
     \<and> labelsHidden (snd (hideLabels v True s)) = True
     \<and> hideLabels v True (snd (hideLabels v True s)) = (Inr (), snd (hideLabels v True s))
     \<and> fst (hideLabels v False (snd (hideLabels v True s))) = Inr ()
     \<and> style (heap (document (snd (hideLabels v False (snd (hideLabels v True s))))) c) ''display''
         = Some []
     \<and> labelsHidden (snd (hideLabels v False (snd (hideLabels v True s)))) = False"
  using assms
  by (auto simp: hideLabels_def getLabelContainer_def setStyle_def modify_def Let_def)

theorem hideLabels_idempotent_witness:
  "labelContainer state0 = None
   \<and> getElementById (document state0) (config_labelContainer viz0) = Some (Suc 0)
   \<and> fst (hideLabels viz0 True state0) = Inr ()
   \<and> style (heap (document (snd (hideLabels viz0 True state0))) (Suc 0)) ''display'' = Some ''none''
   \<and> labelsHidden (snd (hideLabels viz0 True state0)) = True
   \<and> hideLabels viz0 True (snd (hideLabels viz0 True state0))
       = (Inr (), snd (hideLabels viz0 True state0))
   \<and> style (heap (document (snd (hideLabels viz0 False (snd (hideLabels viz0 True state0))))) (Suc 0))
        ''display'' = Some []
   \<and> labelsHidden (snd (hideLabels viz0 False (snd (hideLabels viz0 True state0)))) = False"
proof -
  have h: "labelContainer state0 = None
     \<and> getElementById (document state0) (config_labelContainer viz0) = Some (Suc 0)"
    by (simp add: state0_def viz0_def page0_lookup)
  then have "labelContainer state0 = Some (Suc 0)
     \<or> (labelContainer state0 = None
        \<and> getElementById (document state0) (config_labelContainer viz0) = Some (Suc 0))"
    by simp
  from hideLabels_idempotent [OF this] h show ?thesis by simp
qed

section \<open>Getting or creating a label\<close>






text \<open>The example runs: on the example page both variants create element 2 for node \<^verbatim>\<open>n1\<close>.\<close>

lemma run_HTML: "fst (HTML_getOrCreateLabel viz0 node1 state0) = Inr 2"
  by code_simp





section \<open>Plotting a label again and again\<close>





section \<open>The order of the creation steps\<close>






section \<open>Preparing an animation\<close>

lemma HTML_getOrCreateLabel_calls:
  "HTML_getOrCreateLabel v n s = (r, s1) \<Longrightarrow>
     onBeforeAnimateLabel_calls (calls s1) = onBeforeAnimateLabel_calls (calls s)"
  by (cases rule: getLabel_cases[of s "node_id n"])
     (auto simp: HTML_getOrCreateLabel_def Let_def onBeforeAnimateLabel_calls_def
        split: prod.splits option.splits sum.splits dest: getLabelContainer_keeps)

lemma lost_HTML: "fst (HTML_getOrCreateLabel viz_lost node1 state0) = Inl TypeError"
  by code_simp

text \<open>
  C6, as the claim has it, fails: with \<^verbatim>\<open>useCSS3\<close> off, \<^verbatim>\<open>prepareForAnimation\<close> returns at once
  and \<^verbatim>\<open>onBeforeAnimateLabel\<close> is not called at all.
\<close>

theorem onBeforeAnimateLabel_counterexample:
  "\<not> config_Label_useCSS3 viz_plain
   \<and> fst (HTML_prepareForAnimation decimal viz_plain node1 Map.empty opt0 state0) = Inr ()
   \<and> onBeforeAnimateLabel_calls
        (calls (snd (HTML_prepareForAnimation decimal viz_plain node1 Map.empty opt0 state0))) = []"
  by (simp add: HTML_prepareForAnimation_def viz_plain_def viz0_def state0_def
      onBeforeAnimateLabel_calls_def)

text \<open>
  C6, as the code has it. With \<^verbatim>\<open>useCSS3\<close> off, \<^verbatim>\<open>prepareForAnimation\<close> of the HTML variant
  returns at once: the state is untouched and \<^verbatim>\<open>onBeforeAnimateLabel\<close> is not called. With
  \<^verbatim>\<open>useCSS3\<close> on, if \<^verbatim>\<open>getOrCreateLabel\<close> raises then so does the call, again without calling
  the hook; and if \<^verbatim>\<open>getOrCreateLabel\<close> returns the label then the call returns and has
  called \<^verbatim>\<open>onBeforeAnimateLabel(label, node)\<close> exactly once, as its last step, whichever of
  the opacity branch, the position and size branch, or neither was taken.
\<close>

theorem onBeforeAnimateLabel_once:
  "(\<not> config_Label_useCSS3 v \<longrightarrow> HTML_prepareForAnimation str v n modes opt s = (Inr (), s))
   \<and> (config_Label_useCSS3 v \<longrightarrow> HTML_getOrCreateLabel v n s = (Inl e, s1) \<longrightarrow>
        HTML_prepareForAnimation str v n modes opt s = (Inl e, s1)
        \<and> onBeforeAnimateLabel_calls (calls s1) = onBeforeAnimateLabel_calls (calls s))
   \<and> (config_Label_useCSS3 v \<longrightarrow> HTML_getOrCreateLabel v n s = (Inr a, s2) \<longrightarrow>
        fst (HTML_prepareForAnimation str v n modes opt s) = Inr ()
        \<and> calls (snd (HTML_prepareForAnimation str v n modes opt s))
            = calls s2 @ [OnBeforeAnimateLabel a (node_id n)]
        \<and> onBeforeAnimateLabel_calls (calls (snd (HTML_prepareForAnimation str v n modes opt s)))
            = onBeforeAnimateLabel_calls (calls s) @ [OnBeforeAnimateLabel a (node_id n)])"
proof (intro conjI impI)
  assume "\<not> config_Label_useCSS3 v"
  then show "HTML_prepareForAnimation str v n modes opt s = (Inr (), s)"
    by (simp add: HTML_prepareForAnimation_def)
next
  assume "config_Label_useCSS3 v" and g: "HTML_getOrCreateLabel v n s = (Inl e, s1)"
  then show "HTML_prepareForAnimation str v n modes opt s = (Inl e, s1)"
    by (simp add: HTML_prepareForAnimation_def Let_def)
  show "onBeforeAnimateLabel_calls (calls s1) = onBeforeAnimateLabel_calls (calls s)"
    by (rule HTML_getOrCreateLabel_calls[OF g])
next
  assume u: "config_Label_useCSS3 v" and g: "HTML_getOrCreateLabel v n s = (Inr a, s2)"
  from u g show "fst (HTML_prepareForAnimation str v n modes opt s) = Inr ()"
    by (simp add: HTML_prepareForAnimation_def Let_def)
  from u g show c: "calls (snd (HTML_prepareForAnimation str v n modes opt s))
            = calls s2 @ [OnBeforeAnimateLabel a (node_id n)]"
    by (simp add: HTML_prepareForAnimation_def Let_def)
  show "onBeforeAnimateLabel_calls (calls (snd (HTML_prepareForAnimation str v n modes opt s)))
            = onBeforeAnimateLabel_calls (calls s) @ [OnBeforeAnimateLabel a (node_id n)]"
    unfolding c using HTML_getOrCreateLabel_calls[OF g]
    by (simp add: onBeforeAnimateLabel_calls_def)
qed

theorem onBeforeAnimateLabel_once_witness:
  "\<not> config_Label_useCSS3 viz_plain
   \<and> HTML_prepareForAnimation decimal viz_plain node1 Map.empty opt0 state0 = (Inr (), state0)
   \<and> config_Label_useCSS3 viz_lost
   \<and> fst (HTML_getOrCreateLabel viz_lost node1 state0) = Inl TypeError
   \<and> fst (HTML_prepareForAnimation decimal viz_lost node1 Map.empty opt0 state0) = Inl TypeError
   \<and> onBeforeAnimateLabel_calls
        (calls (snd (HTML_prepareForAnimation decimal viz_lost node1 Map.empty opt0 state0))) = []
   \<and> config_Label_useCSS3 viz0
   \<and> fst (HTML_getOrCreateLabel viz0 node1 state0) = Inr 2
   \<and> fst (HTML_prepareForAnimation decimal viz0 node1 Map.empty opt0 state0) = Inr ()
   \<and> onBeforeAnimateLabel_calls
        (calls (snd (HTML_prepareForAnimation decimal viz0 node1 Map.empty opt0 state0)))
       = [OnBeforeAnimateLabel 2 ''n1'']"
proof -
  have p: "\<not> config_Label_useCSS3 viz_plain" by (simp add: viz_plain_def)
  have l: "config_Label_useCSS3 viz_lost" by (simp add: viz_lost_def viz0_def)
  have u: "config_Label_useCSS3 viz0" by (simp add: viz0_def)
  have c: "onBeforeAnimateLabel_calls (calls state0) = []" "node_id node1 = ''n1''"
    by (simp_all add: state0_def node1_def onBeforeAnimateLabel_calls_def)
  have gl: "HTML_getOrCreateLabel viz_lost node1 state0
      = (Inl TypeError, snd (HTML_getOrCreateLabel viz_lost node1 state0))"
    using lost_HTML by (simp add: prod_eq_iff)
  have g0: "HTML_getOrCreateLabel viz0 node1 state0
      = (Inr 2, snd (HTML_getOrCreateLabel viz0 node1 state0))"
    using run_HTML by (simp add: prod_eq_iff)
  have 1: "HTML_prepareForAnimation decimal viz_plain node1 Map.empty opt0 state0 = (Inr (), state0)"
    using onBeforeAnimateLabel_once [of viz_plain decimal node1 Map.empty opt0 state0] p by blast
  have 2: "HTML_prepareForAnimation decimal viz_lost node1 Map.empty opt0 state0
        = (Inl TypeError, snd (HTML_getOrCreateLabel viz_lost node1 state0))
      \<and> onBeforeAnimateLabel_calls (calls (snd (HTML_getOrCreateLabel viz_lost node1 state0)))
         = onBeforeAnimateLabel_calls (calls state0)"
    using onBeforeAnimateLabel_once [of viz_lost decimal node1 Map.empty opt0 state0 TypeError
        "snd (HTML_getOrCreateLabel viz_lost node1 state0)"] l gl by blast
  have 3: "fst (HTML_prepareForAnimation decimal viz0 node1 Map.empty opt0 state0) = Inr ()
      \<and> onBeforeAnimateLabel_calls
           (calls (snd (HTML_prepareForAnimation decimal viz0 node1 Map.empty opt0 state0)))
         = onBeforeAnimateLabel_calls (calls state0) @ [OnBeforeAnimateLabel 2 (node_id node1)]"
    using onBeforeAnimateLabel_once [of viz0 decimal node1 Map.empty opt0 state0 _ _ 2
        "snd (HTML_getOrCreateLabel viz0 node1 state0)"] u g0 by blast
  show ?thesis using p l u 1 2 3 lost_HTML run_HTML by (simp add: c)
qed



end
